theory Spec2Isabelle
  imports Complex_Main "HOL-Library.AList"
begin

section \<open>The PowerAware TOPSIS scoring plugin\<close>

text \<open>
  A shallow embedding of \<^verbatim>\<open>simulator/scheduler/plugin/powertopsis/plugin.go\<close> and of the
  second copy of the plugin that the repository carries after its README (here called the
  README variant; its definitions carry the suffix \<open>_rv\<close>, since both copies use the same
  Go names).

  Conventions of the embedding:
  \<^item> Go's \<^verbatim>\<open>float64\<close> is idealised as \<open>real\<close>: \<^verbatim>\<open>math.Sqrt\<close> is \<open>sqrt\<close>, \<^verbatim>\<open>math.Exp\<close> is
    \<open>exp\<close>, \<^verbatim>\<open>math.Pow(x, 2)\<close> is \<open>x\<^sup>2\<close>, and \<^verbatim>\<open>1e-9\<close> is \<open>1 / 10 ^ 9\<close>. Rounding error,
    overflow to infinity and NaN are outside the model.
  \<^item> Go's \<^verbatim>\<open>int64\<close> is \<open>int\<close>; where the README variant adds two \<^verbatim>\<open>int64\<close> values the
    wrap-around is written out (\<open>wrap64\<close>).
  \<^item> A Go map is an association list with distinct keys, written with \<open>AList.update\<close> and read
    with \<open>map_of\<close>; reading a missing key yields the zero value, as in Go. The order in
    which \<^verbatim>\<open>range\<close> visits a map is not fixed by Go, so every \<^verbatim>\<open>range\<close> over a map takes
    the visited sequence as an explicit argument, constrained by \<open>rangeOf\<close>.
  \<^item> The framework's \<^verbatim>\<open>CycleState\<close> is a map from keys to the stored \<open>preScoreState\<close>;
    \<^verbatim>\<open>PreScore\<close> returns the updated state (its \<^verbatim>\<open>*framework.Status\<close> is always \<^verbatim>\<open>nil\<close>).
\<close>

subsection \<open>Data\<close>

record nodeVector =
  pods :: real
  cpu :: real
  mem :: real
  power_v :: real

record PowerModelArgs =
  K0 :: real
  K1 :: real
  K2 :: real

record PowerAware =
  weights :: "(string \<times> real) list"
  costCriteria :: "(string \<times> bool) list"
  powerModel :: PowerModelArgs

record preScoreState =
  scores :: "string \<rightharpoonup> int"

type_synonym CycleState = "string \<rightharpoonup> preScoreState"

text \<open>The parts of \<^verbatim>\<open>framework.NodeInfo\<close> and \<^verbatim>\<open>v1.Pod\<close> that the plugin reads.\<close>

record Resource =
  MilliCPU :: int
  Memory :: int

text \<open>A container's requests, as \<^verbatim>\<open>Requests.Cpu().MilliValue()\<close> and
  \<^verbatim>\<open>Requests.Memory().Value()\<close> return them.\<close>

record Container =
  reqCpuMilli :: int
  reqMemBytes :: int

record Pod =
  Containers :: "Container list"

record NodeInfo =
  nodeName :: string
  Pods :: "Pod list"
  Requested :: Resource
  Allocatable :: Resource

record CriteriaConfig =
  Weight :: real
  Type :: string

record PowerAwareArgs =
  PodLoadBalancingCriteria :: CriteriaConfig
  CpuCriteria :: CriteriaConfig
  MemCriteria :: CriteriaConfig
  PowerCriteria :: CriteriaConfig
  PowerModel :: PowerModelArgs

definition Name :: string where
  "Name = ''PowerAware''"

definition preScoreStateKey :: string where
  "preScoreStateKey = ''PreScore'' @ Name"

definition MaxNodeScore :: int where
  "MaxNodeScore = 100"

subsection \<open>Go primitives\<close>

text \<open>Reading a Go map: the zero value for a missing key.\<close>

definition weightOf :: "(string \<times> real) list \<Rightarrow> string \<Rightarrow> real" where
  "weightOf m k = (case map_of m k of None \<Rightarrow> 0 | Some w \<Rightarrow> w)"

definition isCostOf :: "(string \<times> bool) list \<Rightarrow> string \<Rightarrow> bool" where
  "isCostOf m k = (case map_of m k of None \<Rightarrow> False | Some b \<Rightarrow> b)"

definition scoreOf :: "(string \<rightharpoonup> int) \<Rightarrow> string \<Rightarrow> int" where
  "scoreOf m k = (case m k of None \<Rightarrow> 0 | Some s \<Rightarrow> s)"

text \<open>A sequence in which \<^verbatim>\<open>range\<close> may visit the entries of a map: every entry once.\<close>

definition rangeOf :: "(string \<times> 'v) list \<Rightarrow> (string \<times> 'v) list \<Rightarrow> bool" where
  "rangeOf m es \<longleftrightarrow> distinct (map fst es) \<and> set es = set m"

text \<open>\<^verbatim>\<open>int64(math.Round(x))\<close>: to the nearest integer, halves away from zero.\<close>

definition math_Round :: "real \<Rightarrow> int" where
  "math_Round x = (if x < 0 then - \<lfloor>1 / 2 - x\<rfloor> else \<lfloor>x + 1 / 2\<rfloor>)"

text \<open>Two's-complement \<^verbatim>\<open>int64\<close> addition, used by the README variant.\<close>

definition wrap64 :: "int \<Rightarrow> int" where
  "wrap64 x = (x + 2 ^ 63) mod 2 ^ 64 - 2 ^ 63"

text \<open>\<^verbatim>\<open>strings.EqualFold\<close>: equality of two UTF-8 strings under Unicode simple case folding.
  Go walks both strings rune by rune; two runes match when they are equal, when they are an
  ASCII letter and its other case, or when one lies in the \<^verbatim>\<open>unicode.SimpleFold\<close> orbit of the
  other. The model compares canonical forms. \<open>asciiLower\<close> sends \<open>A\<close> to \<open>Z\<close> to their lower-case
  forms. \<open>foldRunes\<close> replaces the only two non-ASCII runes whose orbit holds an ASCII letter:
  U+017F (LATIN SMALL LETTER LONG S, bytes \<open>C5 BF\<close>, orbit \<open>S s\<close> U+017F) by \<open>s\<close>, and U+212A
  (KELVIN SIGN, bytes \<open>E2 84 AA\<close>, orbit \<open>K k\<close> U+212A) by \<open>k\<close>. Both lead bytes can only start a
  rune, and an invalid byte is a rune of width 1 in Go, so the byte patterns are found exactly
  where Go decodes these runes. Every other byte from \<open>80\<close> up is kept: its rune never matches an
  ASCII rune. The model is therefore exact whenever one of the two strings is ASCII, as the
  literals \<^verbatim>\<open>"Cost"\<close> and \<^verbatim>\<open>"benefit"\<close> that \<open>New\<close> passes are; the folding of two non-ASCII
  runes onto each other is not modelled.\<close>

definition asciiLower :: "char \<Rightarrow> char" where
  "asciiLower c =
     (case map_of (zip ''ABCDEFGHIJKLMNOPQRSTUVWXYZ'' ''abcdefghijklmnopqrstuvwxyz'') c of
        None \<Rightarrow> c
      | Some l \<Rightarrow> l)"

fun foldRunes :: "string \<Rightarrow> string" where
  "foldRunes (c1 # c2 # c3 # cs) =
     (if c1 = CHR 0xC5 \<and> c2 = CHR 0xBF then CHR ''s'' # foldRunes (c3 # cs)
      else if c1 = CHR 0xE2 \<and> c2 = CHR 0x84 \<and> c3 = CHR 0xAA then CHR ''k'' # foldRunes cs
      else c1 # foldRunes (c2 # c3 # cs))"
| "foldRunes [c1, c2] =
     (if c1 = CHR 0xC5 \<and> c2 = CHR 0xBF then [CHR ''s''] else c1 # foldRunes [c2])"
| "foldRunes cs = cs"

definition EqualFold :: "string \<Rightarrow> string \<Rightarrow> bool" where
  "EqualFold s t \<longleftrightarrow> foldRunes (map asciiLower s) = foldRunes (map asciiLower t)"

subsection \<open>PowerModel\<close>

text \<open>\<^verbatim>\<open>plugin.go\<close>: \<^verbatim>\<open>p.K0 + p.K1*math.Exp(-p.K2*x)\<close>.\<close>

definition Estimate :: "PowerModelArgs \<Rightarrow> real \<Rightarrow> real" where
  "Estimate p x = K0 p + K1 p * exp (- K2 p * x)"

text \<open>README variant: \<^verbatim>\<open>p.K0 + p.K1*(1.0-math.Exp(-p.K2*x))\<close>.\<close>

definition Estimate_rv :: "PowerModelArgs \<Rightarrow> real \<Rightarrow> real" where
  "Estimate_rv p x = K0 p + K1 p * (1 - exp (- K2 p * x))"

subsection \<open>Helpers of the scoring pass\<close>

definition safeDiv :: "real \<Rightarrow> real \<Rightarrow> real" where
  "safeDiv n d = (if d < 1 / 10 ^ 9 then 0 else n / d)"

definition euclideanDist :: "nodeVector \<Rightarrow> nodeVector \<Rightarrow> real" where
  "euclideanDist a b =
     sqrt ((pods a - pods b)\<^sup>2 + (cpu a - cpu b)\<^sup>2 + (mem a - mem b)\<^sup>2
           + (power_v a - power_v b)\<^sup>2)"

definition getVal :: "nodeVector \<Rightarrow> string \<Rightarrow> real" where
  "getVal v k =
     (if k = ''pods'' then pods v
      else if k = ''cpu'' then cpu v
      else if k = ''memory'' then mem v
      else if k = ''power'' then power_v v
      else 0)"

definition setVal :: "nodeVector \<Rightarrow> string \<Rightarrow> real \<Rightarrow> nodeVector" where
  "setVal v k val =
     (if k = ''pods'' then v\<lparr>pods := val\<rparr>
      else if k = ''cpu'' then v\<lparr>cpu := val\<rparr>
      else if k = ''memory'' then v\<lparr>mem := val\<rparr>
      else if k = ''power'' then v\<lparr>power_v := val\<rparr>
      else v)"

definition criteriaKeys :: "string list" where
  "criteriaKeys = [''pods'', ''cpu'', ''memory'', ''power'']"

text \<open>One round of the loop over the keys in \<^verbatim>\<open>getExtreme\<close>: \<open>res\<close> is the vector being built.\<close>

definition getExtremeStep ::
  "PowerAware \<Rightarrow> nodeVector \<Rightarrow> nodeVector \<Rightarrow> bool \<Rightarrow> nodeVector \<Rightarrow> string \<Rightarrow> nodeVector" where
  "getExtremeStep pl cur nxt isIdeal res k =
     (let v = getVal nxt k;
          c = getVal cur k;
          isCost = isCostOf (costCriteria pl) k;
          update = (if isIdeal then (isCost \<and> v < c) \<or> (\<not> isCost \<and> v > c)
                    else (isCost \<and> v > c) \<or> (\<not> isCost \<and> v < c))
      in if update then setVal res k v else res)"

definition getExtreme :: "PowerAware \<Rightarrow> nodeVector \<Rightarrow> nodeVector \<Rightarrow> bool \<Rightarrow> nodeVector" where
  "getExtreme pl cur nxt isIdeal = foldl (getExtremeStep pl cur nxt isIdeal) cur criteriaKeys"

subsection \<open>The prepare step of \<^verbatim>\<open>plugin.go\<close>\<close>

text \<open>The body of the first loop: the raw vector of one node, from its current state.\<close>

definition nodeRaw :: "PowerAware \<Rightarrow> NodeInfo \<Rightarrow> nodeVector" where
  "nodeRaw pl n =
     (let p = real (length (Pods n));
          c = (if MilliCPU (Allocatable n) > 0
               then real_of_int (MilliCPU (Requested n)) / real_of_int (MilliCPU (Allocatable n))
               else 0);
          m = (if Memory (Allocatable n) > 0
               then real_of_int (Memory (Requested n)) / real_of_int (Memory (Allocatable n))
               else 0);
          pow = Estimate (powerModel pl) c
      in \<lparr>pods = p, cpu = c, mem = m, power_v = pow\<rparr>)"

record extractAcc =
  rawValues :: "(string \<times> nodeVector) list"
  sumP :: real
  sumC :: real
  sumM :: real
  sumPow :: real

definition extractStep :: "(NodeInfo \<Rightarrow> nodeVector) \<Rightarrow> extractAcc \<Rightarrow> NodeInfo \<Rightarrow> extractAcc" where
  "extractStep raw acc n =
     (let v = raw n
      in \<lparr>rawValues = AList.update (nodeName n) v (rawValues acc),
          sumP = sumP acc + pods v * pods v,
          sumC = sumC acc + cpu v * cpu v,
          sumM = sumM acc + mem v * mem v,
          sumPow = sumPow acc + power_v v * power_v v\<rparr>)"

definition extractLoop :: "(NodeInfo \<Rightarrow> nodeVector) \<Rightarrow> NodeInfo list \<Rightarrow> extractAcc" where
  "extractLoop raw nodes =
     foldl (extractStep raw) \<lparr>rawValues = [], sumP = 0, sumC = 0, sumM = 0, sumPow = 0\<rparr> nodes"

definition denomsOf :: "extractAcc \<Rightarrow> nodeVector" where
  "denomsOf acc =
     \<lparr>pods = sqrt (sumP acc), cpu = sqrt (sumC acc), mem = sqrt (sumM acc),
      power_v = sqrt (sumPow acc)\<rparr>"

text \<open>The second loop: normalise, weight, and fold the extremes.\<close>

definition weightedOf :: "PowerAware \<Rightarrow> nodeVector \<Rightarrow> nodeVector \<Rightarrow> nodeVector" where
  "weightedOf pl denoms v =
     \<lparr>pods = safeDiv (pods v) (pods denoms) * weightOf (weights pl) ''pods'',
      cpu = safeDiv (cpu v) (cpu denoms) * weightOf (weights pl) ''cpu'',
      mem = safeDiv (mem v) (mem denoms) * weightOf (weights pl) ''memory'',
      power_v = safeDiv (power_v v) (power_v denoms) * weightOf (weights pl) ''power''\<rparr>"

record weightAcc =
  weightedMatrix :: "(string \<times> nodeVector) list"
  ideal :: nodeVector
  negative :: nodeVector
  first :: bool

definition weightStep ::
  "PowerAware \<Rightarrow> nodeVector \<Rightarrow> weightAcc \<Rightarrow> string \<times> nodeVector \<Rightarrow> weightAcc" where
  "weightStep pl denoms acc e =
     (let weighted = weightedOf pl denoms (snd e);
          wm = AList.update (fst e) weighted (weightedMatrix acc)
      in if first acc
         then \<lparr>weightedMatrix = wm, ideal = weighted, negative = weighted, first = False\<rparr>
         else \<lparr>weightedMatrix = wm,
               ideal = getExtreme pl (ideal acc) weighted True,
               negative = getExtreme pl (negative acc) weighted False,
               first = False\<rparr>)"

definition zeroVector :: nodeVector where
  "zeroVector = \<lparr>pods = 0, cpu = 0, mem = 0, power_v = 0\<rparr>"

definition weightLoop ::
  "PowerAware \<Rightarrow> nodeVector \<Rightarrow> (string \<times> nodeVector) list \<Rightarrow> weightAcc" where
  "weightLoop pl denoms es =
     foldl (weightStep pl denoms)
       \<lparr>weightedMatrix = [], ideal = zeroVector, negative = zeroVector, first = True\<rparr> es"

text \<open>The third loop: distances, closeness, integer score.\<close>

definition closenessOf :: "nodeVector \<Rightarrow> nodeVector \<Rightarrow> nodeVector \<Rightarrow> real" where
  "closenessOf idl neg v =
     (let dPlus = euclideanDist v idl;
          dMinus = euclideanDist v neg
      in if dPlus + dMinus > 1 / 10 ^ 9 then dMinus / (dPlus + dMinus) else 1 / 2)"

definition nodeScore :: "nodeVector \<Rightarrow> nodeVector \<Rightarrow> nodeVector \<Rightarrow> int" where
  "nodeScore idl neg v = math_Round (closenessOf idl neg v * real_of_int MaxNodeScore)"

definition scoreStep ::
  "nodeVector \<Rightarrow> nodeVector \<Rightarrow> (string \<rightharpoonup> int) \<Rightarrow> string \<times> nodeVector \<Rightarrow> (string \<rightharpoonup> int)" where
  "scoreStep idl neg sc e = sc(fst e \<mapsto> nodeScore idl neg (snd e))"

definition scoreLoop ::
  "nodeVector \<Rightarrow> nodeVector \<Rightarrow> (string \<times> nodeVector) list \<Rightarrow> (string \<rightharpoonup> int)" where
  "scoreLoop idl neg es = foldl (scoreStep idl neg) Map.empty es"

text \<open>Everything after the first loop, shared by both copies of the plugin. \<open>es1\<close> is the
  sequence in which the second loop visits \<open>rawValues\<close>, \<open>es2\<close> the one in which the third loop
  visits \<open>weightedMatrix\<close>.\<close>

definition rankFrom ::
  "PowerAware \<Rightarrow> extractAcc \<Rightarrow> (string \<times> nodeVector) list \<Rightarrow> (string \<times> nodeVector) list
     \<Rightarrow> preScoreState" where
  "rankFrom pl acc es1 es2 =
     (let w = weightLoop pl (denomsOf acc) es1
      in \<lparr>scores = scoreLoop (ideal w) (negative w) es2\<rparr>)"

definition PreScore ::
  "PowerAware \<Rightarrow> (string \<times> nodeVector) list \<Rightarrow> (string \<times> nodeVector) list
     \<Rightarrow> CycleState \<Rightarrow> Pod \<Rightarrow> NodeInfo list \<Rightarrow> CycleState" where
  "PreScore pl es1 es2 state pod nodes =
     (if length nodes = 0 then state
      else state(preScoreStateKey \<mapsto> rankFrom pl (extractLoop (nodeRaw pl) nodes) es1 es2))"

text \<open>The visiting sequences that Go allows for a run of \<open>PreScore\<close>.\<close>

definition rangesOf ::
  "PowerAware \<Rightarrow> extractAcc \<Rightarrow> (string \<times> nodeVector) list \<Rightarrow> (string \<times> nodeVector) list
     \<Rightarrow> bool" where
  "rangesOf pl acc es1 es2 \<longleftrightarrow>
     rangeOf (rawValues acc) es1 \<and>
     rangeOf (weightedMatrix (weightLoop pl (denomsOf acc) es1)) es2"

subsection \<open>The query step\<close>

definition Score :: "CycleState \<Rightarrow> Pod \<Rightarrow> string \<Rightarrow> int" where
  "Score state pod nodeName' =
     (case state preScoreStateKey of
        None \<Rightarrow> 0
      | Some s \<Rightarrow> scoreOf (scores s) nodeName')"

subsection \<open>The prepare step of the README variant\<close>

definition podCPU_rv :: "Pod \<Rightarrow> int" where
  "podCPU_rv pod = foldl (\<lambda>acc c. wrap64 (acc + reqCpuMilli c)) 0 (Containers pod)"

definition podMem_rv :: "Pod \<Rightarrow> int" where
  "podMem_rv pod = foldl (\<lambda>acc c. wrap64 (acc + reqMemBytes c)) 0 (Containers pod)"

definition nodeRaw_rv :: "PowerAware \<Rightarrow> Pod \<Rightarrow> NodeInfo \<Rightarrow> nodeVector" where
  "nodeRaw_rv pl pod n =
     (let p = real_of_int (int (length (Pods n)) + 1);
          c = (if MilliCPU (Allocatable n) > 0
               then real_of_int (wrap64 (MilliCPU (Requested n) + podCPU_rv pod))
                    / real_of_int (MilliCPU (Allocatable n))
               else 0);
          m = (if Memory (Allocatable n) > 0
               then real_of_int (wrap64 (Memory (Requested n) + podMem_rv pod))
                    / real_of_int (Memory (Allocatable n))
               else 0);
          pow = Estimate_rv (powerModel pl) c
      in \<lparr>pods = p, cpu = c, mem = m, power_v = pow\<rparr>)"

definition PreScore_rv ::
  "PowerAware \<Rightarrow> (string \<times> nodeVector) list \<Rightarrow> (string \<times> nodeVector) list
     \<Rightarrow> CycleState \<Rightarrow> Pod \<Rightarrow> NodeInfo list \<Rightarrow> CycleState" where
  "PreScore_rv pl es1 es2 state pod nodes =
     (if length nodes = 0 then state
      else state(preScoreStateKey \<mapsto> rankFrom pl (extractLoop (nodeRaw_rv pl pod) nodes) es1 es2))"

subsection \<open>Construction\<close>

text \<open>\<open>New\<close> starts from built-in defaults and lets the framework's decoder overwrite them
  when an argument is present. The decoder is outside the repository: \<open>arg\<close> is \<open>None\<close> for a
  \<^verbatim>\<open>nil\<close> argument and otherwise holds \<^verbatim>\<open>typedArg\<close> as the decoder left it.\<close>

definition defaultArgs :: PowerAwareArgs where
  "defaultArgs =
     \<lparr>PodLoadBalancingCriteria = \<lparr>Weight = 2 / 10, Type = ''Cost''\<rparr>,
      CpuCriteria = \<lparr>Weight = 2 / 10, Type = ''Cost''\<rparr>,
      MemCriteria = \<lparr>Weight = 2 / 10, Type = ''Cost''\<rparr>,
      PowerCriteria = \<lparr>Weight = 4 / 10, Type = ''Cost''\<rparr>,
      PowerModel = \<lparr>K0 = 150, K1 = 100, K2 = 3\<rparr>\<rparr>"

definition assign ::
  "string \<Rightarrow> CriteriaConfig \<Rightarrow> (string \<times> real) list \<times> (string \<times> bool) list
     \<Rightarrow> (string \<times> real) list \<times> (string \<times> bool) list" where
  "assign k c maps =
     (AList.update k (Weight c) (fst maps),
      AList.update k (EqualFold (Type c) ''Cost'') (snd maps))"

definition New :: "PowerAwareArgs option \<Rightarrow> PowerAware" where
  "New arg =
     (let typedArg = (case arg of None \<Rightarrow> defaultArgs | Some a \<Rightarrow> a);
          maps = assign ''power'' (PowerCriteria typedArg)
                   (assign ''memory'' (MemCriteria typedArg)
                      (assign ''cpu'' (CpuCriteria typedArg)
                         (assign ''pods'' (PodLoadBalancingCriteria typedArg) ([], []))))
      in \<lparr>weights = fst maps, costCriteria = snd maps, powerModel = PowerModel typedArg\<rparr>)"

definition defaultArgs_rv :: PowerAwareArgs where
  "defaultArgs_rv =
     \<lparr>PodLoadBalancingCriteria = \<lparr>Weight = 1 / 10, Type = ''Benefit''\<rparr>,
      CpuCriteria = \<lparr>Weight = 35 / 100, Type = ''Benefit''\<rparr>,
      MemCriteria = \<lparr>Weight = 35 / 100, Type = ''Benefit''\<rparr>,
      PowerCriteria = \<lparr>Weight = 2 / 10, Type = ''Cost''\<rparr>,
      PowerModel = \<lparr>K0 = 150, K1 = 100, K2 = 3\<rparr>\<rparr>"

definition assign_rv ::
  "string \<Rightarrow> CriteriaConfig \<Rightarrow> (string \<times> real) list \<times> (string \<times> bool) list
     \<Rightarrow> (string \<times> real) list \<times> (string \<times> bool) list" where
  "assign_rv k c maps =
     (AList.update k (Weight c) (fst maps),
      (if EqualFold (Type c) ''benefit''
       then AList.update k False (snd maps)
       else AList.update k True (snd maps)))"

definition New_rv :: "PowerAwareArgs option \<Rightarrow> PowerAware" where
  "New_rv arg =
     (let typedArg = (case arg of None \<Rightarrow> defaultArgs_rv | Some a \<Rightarrow> a);
          maps = assign_rv ''power'' (PowerCriteria typedArg)
                   (assign_rv ''memory'' (MemCriteria typedArg)
                      (assign_rv ''cpu'' (CpuCriteria typedArg)
                         (assign_rv ''pods'' (PodLoadBalancingCriteria typedArg) ([], []))))
      in \<lparr>weights = fst maps, costCriteria = snd maps, powerModel = PowerModel typedArg\<rparr>)"

subsection \<open>Vocabulary of the properties\<close>

text \<open>Two bytes are the same letter when they are equal or an upper-case ASCII letter and its
  lower-case form; two strings are case variants when they are so byte by byte.\<close>

definition sameLetter :: "char \<Rightarrow> char \<Rightarrow> bool" where
  "sameLetter c d \<longleftrightarrow>
     c = d \<or>
     (c, d) \<in> set (zip ''ABCDEFGHIJKLMNOPQRSTUVWXYZ'' ''abcdefghijklmnopqrstuvwxyz'') \<or>
     (d, c) \<in> set (zip ''ABCDEFGHIJKLMNOPQRSTUVWXYZ'' ''abcdefghijklmnopqrstuvwxyz'')"

definition caseVariant :: "string \<Rightarrow> string \<Rightarrow> bool" where
  "caseVariant s t \<longleftrightarrow> list_all2 sameLetter s t"

section \<open>Properties\<close>

subsection \<open>Construction: polarity of a criterion\<close>

lemma asciiLower_upper:
  "map asciiLower ''ABCDEFGHIJKLMNOPQRSTUVWXYZ'' = ''abcdefghijklmnopqrstuvwxyz''"
  by (simp add: asciiLower_def)

lemma asciiLower_lower:
  "map asciiLower ''abcdefghijklmnopqrstuvwxyz'' = ''abcdefghijklmnopqrstuvwxyz''"
  by (simp add: asciiLower_def)

lemma asciiLower_pair:
  assumes "(c, d) \<in> set (zip ''ABCDEFGHIJKLMNOPQRSTUVWXYZ'' ''abcdefghijklmnopqrstuvwxyz'')"
  shows "asciiLower c = d \<and> asciiLower d = d"
proof -
  define U where "U = ''ABCDEFGHIJKLMNOPQRSTUVWXYZ''"
  define L where "L = ''abcdefghijklmnopqrstuvwxyz''"
  have up: "map asciiLower U = L" and lo: "map asciiLower L = L"
    unfolding U_def L_def by (rule asciiLower_upper, rule asciiLower_lower)
  from assms have "(c, d) \<in> set (zip U L)"
    unfolding U_def L_def .
  then obtain i where i: "i < length U" "i < length L" "U ! i = c" "L ! i = d"
    unfolding in_set_zip by auto
  have "asciiLower (U ! i) = map asciiLower U ! i"
    using i(1) by simp
  with up i have a: "asciiLower c = d"
    by simp
  have "asciiLower (L ! i) = map asciiLower L ! i"
    using i(2) by simp
  with lo i have b: "asciiLower d = d"
    by simp
  from a b show ?thesis ..
qed

lemma asciiLower_sameLetter:
  assumes "sameLetter c d"
  shows "asciiLower c = asciiLower d"
proof -
  from assms consider
      "c = d"
    | "(c, d) \<in> set (zip ''ABCDEFGHIJKLMNOPQRSTUVWXYZ'' ''abcdefghijklmnopqrstuvwxyz'')"
    | "(d, c) \<in> set (zip ''ABCDEFGHIJKLMNOPQRSTUVWXYZ'' ''abcdefghijklmnopqrstuvwxyz'')"
    unfolding sameLetter_def by blast
  then show ?thesis
  proof cases
    case 1
    then show ?thesis by simp
  next
    case 2
    from asciiLower_pair [OF 2] show ?thesis by simp
  next
    case 3
    from asciiLower_pair [OF 3] show ?thesis by simp
  qed
qed

lemma EqualFold_caseVariant: "caseVariant s s' \<Longrightarrow> EqualFold s t = EqualFold s' t"
proof -
  assume "caseVariant s s'"
  then have "list_all2 sameLetter s s'"
    by (simp add: caseVariant_def)
  then have "map asciiLower s = map asciiLower s'"
    by (induction rule: list_all2_induct) (simp_all add: asciiLower_sameLetter)
  then show ?thesis
    by (simp add: EqualFold_def)
qed

lemma New_costCriteria:
  "isCostOf (costCriteria (New (Some a))) ''pods''
     = EqualFold (Type (PodLoadBalancingCriteria a)) ''Cost''"
  "isCostOf (costCriteria (New (Some a))) ''cpu'' = EqualFold (Type (CpuCriteria a)) ''Cost''"
  "isCostOf (costCriteria (New (Some a))) ''memory'' = EqualFold (Type (MemCriteria a)) ''Cost''"
  "isCostOf (costCriteria (New (Some a))) ''power'' = EqualFold (Type (PowerCriteria a)) ''Cost''"
  by (simp_all add: New_def assign_def isCostOf_def)

lemma New_rv_costCriteria:
  "isCostOf (costCriteria (New_rv (Some a))) ''pods''
     = (\<not> EqualFold (Type (PodLoadBalancingCriteria a)) ''benefit'')"
  "isCostOf (costCriteria (New_rv (Some a))) ''cpu''
     = (\<not> EqualFold (Type (CpuCriteria a)) ''benefit'')"
  "isCostOf (costCriteria (New_rv (Some a))) ''memory''
     = (\<not> EqualFold (Type (MemCriteria a)) ''benefit'')"
  "isCostOf (costCriteria (New_rv (Some a))) ''power''
     = (\<not> EqualFold (Type (PowerCriteria a)) ''benefit'')"
  by (simp_all add: New_rv_def assign_rv_def isCostOf_def)

lemma EqualFold_examples:
  "EqualFold ''COST'' ''Cost''"
  "EqualFold ''cost'' ''Cost''"
  "EqualFold [CHR ''C'', CHR ''o'', CHR 0xC5, CHR 0xBF, CHR ''t''] ''Cost''"
  "\<not> EqualFold ''Benefit'' ''Cost''"
  "\<not> EqualFold ''foo'' ''Cost''"
  "\<not> EqualFold [] ''Cost''"
  "EqualFold ''BENEFIT'' ''benefit''"
  "EqualFold ''Benefit'' ''benefit''"
  "\<not> EqualFold ''Cost'' ''benefit''"
  "\<not> EqualFold ''foo'' ''benefit''"
  by (simp_all add: EqualFold_def asciiLower_def)

text \<open>
  C4, as stated, fails on \<^verbatim>\<open>plugin.go\<close>: there \<open>New\<close> stores
  \<^verbatim>\<open>strings.EqualFold(c.Type, "Cost")\<close>, so the unrecognised type \<^verbatim>\<open>"foo"\<close> makes the CPU criterion
  a Benefit criterion, not a Cost criterion.
\<close>

theorem New_unrecognised_type_is_Benefit:
  "\<not> isCostOf
       (costCriteria (New (Some (defaultArgs\<lparr>CpuCriteria := \<lparr>Weight = 1, Type = ''foo''\<rparr>\<rparr>))))
       ''cpu''"
  by (simp add: New_costCriteria EqualFold_examples)

text \<open>
  C4, amended: in both copies of \<open>New\<close> the polarity of each of the four criteria depends on
  the type string only up to the case of its letters. In \<^verbatim>\<open>plugin.go\<close> a criterion is Cost
  exactly when \<^verbatim>\<open>strings.EqualFold\<close> matches its type with \<^verbatim>\<open>"Cost"\<close> (as it does \<^verbatim>\<open>"COST"\<close>,
  \<^verbatim>\<open>"cost"\<close> and, by Unicode simple folding, the spelling with U+017F for the \<open>s\<close>), so every other
  string, \<^verbatim>\<open>"Benefit"\<close> and any unrecognised one alike, resolves to Benefit. In the README variant
  a criterion is Benefit exactly when its type matches \<^verbatim>\<open>"benefit"\<close> (as \<^verbatim>\<open>"BENEFIT"\<close> does), so
  every other string, \<^verbatim>\<open>"Cost"\<close> and any unrecognised one alike, resolves to Cost.
\<close>

theorem New_polarity_resolution:
  "(caseVariant s s' \<longrightarrow> EqualFold s t = EqualFold s' t) \<and>
   isCostOf (costCriteria (New (Some a))) ''pods''
     = EqualFold (Type (PodLoadBalancingCriteria a)) ''Cost'' \<and>
   isCostOf (costCriteria (New (Some a))) ''cpu'' = EqualFold (Type (CpuCriteria a)) ''Cost'' \<and>
   isCostOf (costCriteria (New (Some a))) ''memory'' = EqualFold (Type (MemCriteria a)) ''Cost'' \<and>
   isCostOf (costCriteria (New (Some a))) ''power'' = EqualFold (Type (PowerCriteria a)) ''Cost'' \<and>
   isCostOf (costCriteria (New_rv (Some a))) ''pods''
     = (\<not> EqualFold (Type (PodLoadBalancingCriteria a)) ''benefit'') \<and>
   isCostOf (costCriteria (New_rv (Some a))) ''cpu''
     = (\<not> EqualFold (Type (CpuCriteria a)) ''benefit'') \<and>
   isCostOf (costCriteria (New_rv (Some a))) ''memory''
     = (\<not> EqualFold (Type (MemCriteria a)) ''benefit'') \<and>
   isCostOf (costCriteria (New_rv (Some a))) ''power''
     = (\<not> EqualFold (Type (PowerCriteria a)) ''benefit'') \<and>
   EqualFold ''COST'' ''Cost'' \<and> EqualFold ''cost'' ''Cost'' \<and>
   EqualFold [CHR ''C'', CHR ''o'', CHR 0xC5, CHR 0xBF, CHR ''t''] ''Cost'' \<and>
   \<not> EqualFold ''Benefit'' ''Cost'' \<and> \<not> EqualFold ''foo'' ''Cost'' \<and> \<not> EqualFold [] ''Cost'' \<and>
   EqualFold ''BENEFIT'' ''benefit'' \<and> EqualFold ''Benefit'' ''benefit'' \<and>
   \<not> EqualFold ''Cost'' ''benefit'' \<and> \<not> EqualFold ''foo'' ''benefit''"
  using EqualFold_caseVariant [of s s' t]
  by (simp add: New_costCriteria New_rv_costCriteria EqualFold_examples)

theorem New_polarity_resolution_witness:
  "caseVariant ''BeNeFiT'' ''benefit'' \<and>
   EqualFold ''BeNeFiT'' ''benefit'' \<and>
   isCostOf (costCriteria (New (Some
      (defaultArgs\<lparr>CpuCriteria := \<lparr>Weight = 1, Type = ''COST''\<rparr>,
                   MemCriteria := \<lparr>Weight = 1, Type = ''Benefit''\<rparr>,
                   PowerCriteria := \<lparr>Weight = 1, Type = ''foo''\<rparr>\<rparr>)))) ''cpu'' \<and>
   \<not> isCostOf (costCriteria (New (Some
      (defaultArgs\<lparr>CpuCriteria := \<lparr>Weight = 1, Type = ''COST''\<rparr>,
                   MemCriteria := \<lparr>Weight = 1, Type = ''Benefit''\<rparr>,
                   PowerCriteria := \<lparr>Weight = 1, Type = ''foo''\<rparr>\<rparr>)))) ''memory'' \<and>
   \<not> isCostOf (costCriteria (New (Some
      (defaultArgs\<lparr>CpuCriteria := \<lparr>Weight = 1, Type = ''COST''\<rparr>,
                   MemCriteria := \<lparr>Weight = 1, Type = ''Benefit''\<rparr>,
                   PowerCriteria := \<lparr>Weight = 1, Type = ''foo''\<rparr>\<rparr>)))) ''power'' \<and>
   isCostOf (costCriteria (New_rv (Some
      (defaultArgs\<lparr>CpuCriteria := \<lparr>Weight = 1, Type = ''COST''\<rparr>,
                   MemCriteria := \<lparr>Weight = 1, Type = ''Benefit''\<rparr>,
                   PowerCriteria := \<lparr>Weight = 1, Type = ''foo''\<rparr>\<rparr>)))) ''power'' \<and>
   \<not> isCostOf (costCriteria (New_rv (Some
      (defaultArgs\<lparr>CpuCriteria := \<lparr>Weight = 1, Type = ''COST''\<rparr>,
                   MemCriteria := \<lparr>Weight = 1, Type = ''Benefit''\<rparr>,
                   PowerCriteria := \<lparr>Weight = 1, Type = ''foo''\<rparr>\<rparr>)))) ''memory''"
proof -
  let ?a = "defaultArgs\<lparr>CpuCriteria := \<lparr>Weight = 1, Type = ''COST''\<rparr>,
                        MemCriteria := \<lparr>Weight = 1, Type = ''Benefit''\<rparr>,
                        PowerCriteria := \<lparr>Weight = 1, Type = ''foo''\<rparr>\<rparr>"
  have v: "caseVariant ''BeNeFiT'' ''benefit''"
    by (simp add: caseVariant_def sameLetter_def)
  note t = New_polarity_resolution [of "''BeNeFiT''" "''benefit''" "''benefit''" ?a]
  from t v have m: "EqualFold ''BeNeFiT'' ''benefit'' = EqualFold ''benefit'' ''benefit''"
    by blast
  have r: "EqualFold ''benefit'' ''benefit''"
    by (simp add: EqualFold_def)
  from t have c1: "isCostOf (costCriteria (New (Some ?a))) ''cpu''"
    by simp
  from t have c2: "\<not> isCostOf (costCriteria (New (Some ?a))) ''memory''"
    by simp
  from t have c3: "\<not> isCostOf (costCriteria (New (Some ?a))) ''power''"
    by simp
  from t have c4: "isCostOf (costCriteria (New_rv (Some ?a))) ''power''"
    by simp
  from t have c5: "\<not> isCostOf (costCriteria (New_rv (Some ?a))) ''memory''"
    by simp
  from v m r c1 c2 c3 c4 c5 show ?thesis
    by blast
qed

subsection \<open>PowerModel: the two formulas\<close>

text \<open>
  C5: for constants with \<open>k1 > 0\<close> and \<open>k2 > 0\<close>, the README variant's formula
  \<open>k0 + k1 * (1 - exp (- k2 * u))\<close> is strictly increasing in the utilisation \<open>u\<close>, the formula
  \<open>k0 + k1 * exp (- k2 * u)\<close> of \<^verbatim>\<open>plugin.go\<close> is strictly decreasing, and the two disagree at
  some utilisation (at \<open>u = 0\<close>, where they yield \<open>k0\<close> and \<open>k0 + k1\<close>).
\<close>

theorem Estimate_variants_opposite:
  assumes "0 < K1 p" and "0 < K2 p"
  shows "(\<forall>u v. u < v \<longrightarrow> Estimate_rv p u < Estimate_rv p v) \<and>
         (\<forall>u v. u < v \<longrightarrow> Estimate p v < Estimate p u) \<and>
         Estimate_rv p 0 = K0 p \<and> Estimate p 0 = K0 p + K1 p \<and>
         (\<exists>u. Estimate p u \<noteq> Estimate_rv p u)"
proof -
  have inc: "\<forall>u v. u < v \<longrightarrow> Estimate_rv p u < Estimate_rv p v"
    using assms by (simp add: Estimate_rv_def)
  have dec: "\<forall>u v. u < v \<longrightarrow> Estimate p v < Estimate p u"
    using assms by (simp add: Estimate_def)
  have at0: "Estimate_rv p 0 = K0 p" "Estimate p 0 = K0 p + K1 p"
    by (simp_all add: Estimate_def Estimate_rv_def)
  then have "Estimate p 0 \<noteq> Estimate_rv p 0"
    using assms by simp
  then have "\<exists>u. Estimate p u \<noteq> Estimate_rv p u" ..
  with inc dec at0 show ?thesis
    by simp
qed

theorem Estimate_variants_opposite_witness:
  "Estimate_rv \<lparr>K0 = 150, K1 = 100, K2 = 3\<rparr> 0 < Estimate_rv \<lparr>K0 = 150, K1 = 100, K2 = 3\<rparr> 1 \<and>
   Estimate \<lparr>K0 = 150, K1 = 100, K2 = 3\<rparr> 1 < Estimate \<lparr>K0 = 150, K1 = 100, K2 = 3\<rparr> 0 \<and>
   Estimate \<lparr>K0 = 150, K1 = 100, K2 = 3\<rparr> 0 = 250"
proof -
  let ?p = "\<lparr>K0 = 150, K1 = 100, K2 = 3\<rparr>"
  have h: "0 < K1 ?p" "0 < K2 ?p"
    by simp_all
  note t = Estimate_variants_opposite [OF h]
  from t have inc: "\<forall>u v. u < v \<longrightarrow> Estimate_rv ?p u < Estimate_rv ?p v"
    by (rule conjunct1)
  from t have dec: "\<forall>u v. u < v \<longrightarrow> Estimate ?p v < Estimate ?p u"
    by blast
  from t have at0: "Estimate ?p 0 = K0 ?p + K1 ?p"
    by blast
  have lt: "(0::real) < 1"
    by simp
  from inc lt have a: "Estimate_rv ?p 0 < Estimate_rv ?p 1"
    by blast
  from dec lt have b: "Estimate ?p 1 < Estimate ?p 0"
    by blast
  from at0 have c: "Estimate ?p 0 = 250"
    by simp
  from a b c show ?thesis
    by blast
qed

subsection \<open>The query step\<close>

text \<open>
  C10: a query for a node name that is not in the stored score table returns 0, and so does a
  query when no table is stored at all; with an empty candidate list the prepare step (of
  either copy) leaves the cycle state as it is, so that after it, from a fresh cycle state,
  every query returns 0.
\<close>

theorem Score_absent_is_zero:
  "(state preScoreStateKey = None \<longrightarrow> Score state pod n = 0) \<and>
   (\<forall>s. state preScoreStateKey = Some s \<and> scores s n = None \<longrightarrow> Score state pod n = 0) \<and>
   PreScore pl es1 es2 state pod' [] = state \<and>
   PreScore_rv pl es1 es2 state pod' [] = state \<and>
   Score (PreScore pl es1 es2 Map.empty pod' []) pod n = 0 \<and>
   Score (PreScore_rv pl es1 es2 Map.empty pod' []) pod n = 0"
  by (simp add: Score_def PreScore_def PreScore_rv_def scoreOf_def)

theorem Score_absent_is_zero_witness:
  "Score [preScoreStateKey \<mapsto> \<lparr>scores = [''node-a'' \<mapsto> 7]\<rparr>] \<lparr>Containers = []\<rparr> ''node-b'' = 0 \<and>
   Score Map.empty \<lparr>Containers = []\<rparr> ''node-b'' = 0"
proof -
  have a: "Score [preScoreStateKey \<mapsto> \<lparr>scores = [''node-a'' \<mapsto> 7]\<rparr>] \<lparr>Containers = []\<rparr> ''node-b'' = 0"
    using Score_absent_is_zero
      [of "[preScoreStateKey \<mapsto> \<lparr>scores = [''node-a'' \<mapsto> 7]\<rparr>]" "\<lparr>Containers = []\<rparr>" "''node-b''"]
    by simp
  have b: "Score Map.empty \<lparr>Containers = []\<rparr> ''node-b'' = 0"
    using Score_absent_is_zero [of Map.empty "\<lparr>Containers = []\<rparr>" "''node-b''"]
    by simp
  from a b show ?thesis ..
qed

end
